theory Spec2Isabelle
  imports Main
begin

section \<open>The Flic button adapter: data model\<close>

text \<open>
  The adapter (\<^verbatim>\<open>src/adapter.js\<close>) runs on a single JavaScript event loop. The model is
  a record of everything the code reads and writes, and one function per method, listener
  and callback of the source; each function takes the state and returns the new one.

  Objects created with \<^verbatim>\<open>new\<close> (connection channels, scanners, battery listeners, timers,
  buttons) are identified by a number taken from a counter, so two objects are never
  confused. An \<^verbatim>\<open>async\<close> function that is suspended at \<^verbatim>\<open>await\<close> is a stored frame; the
  event loop continues it (\<open>resume\<close>) once its promise is settled.
\<close>

type_synonym bdaddr = string
type_synonym obj = nat

datatype event_name =
    EvCreateResponse
  | EvConnectionStatusChanged
  | EvRemoved
  | EvButtonUpOrDown
  | EvButtonSingleOrDoubleClickOrHold
  | EvBatteryStatus
  | EvAdvertisementPacket

text \<open>An emitted event with its arguments, in the order the listeners receive them.\<close>

datatype signal =
    CreateResponse string string
  | ConnectionStatusChanged string string
  | Removed string
  | ButtonUpOrDown string
  | ButtonSingleOrDoubleClickOrHold string
  | BatteryStatus int
  | AdvertisementPacket bdaddr string int bool bool

fun event_of :: "signal \<Rightarrow> event_name" where
  "event_of (CreateResponse error connectionStatus) = EvCreateResponse"
| "event_of (ConnectionStatusChanged connectionStatus disconnectReason) = EvConnectionStatusChanged"
| "event_of (Removed removedReason) = EvRemoved"
| "event_of (ButtonUpOrDown clickType) = EvButtonUpOrDown"
| "event_of (ButtonSingleOrDoubleClickOrHold clickType) = EvButtonSingleOrDoubleClickOrHold"
| "event_of (BatteryStatus percentage) = EvBatteryStatus"
| "event_of (AdvertisementPacket bdAddr name rssi isPrivate alreadyVerified) = EvAdvertisementPacket"

text \<open>
  The listeners of the source, each with the object its closure captures: the three
  listeners of a connection attempt capture the channel \<open>cc\<close> of their \<^verbatim>\<open>addDevice\<close> call,
  the listeners of a button capture the button.
\<close>

datatype handler =
    OnCreateResponse obj
  | OnConnectionStatusChanged obj
  | OnRemoved obj
  | OnButtonUpOrDown obj
  | OnButtonSingleOrDoubleClickOrHold obj
  | OnBatteryStatus obj
  | OnAdvertisementPacket

text \<open>
  The daemon client (\<^verbatim>\<open>fliclibNodeJs.js\<close>) is an external library. The model keeps the
  list of the commands the adapter has given it, in order.
\<close>

datatype command =
    AddConnectionChannel obj
  | RemoveConnectionChannel obj
  | AddScanner obj
  | RemoveScanner "obj option"
  | AddBatteryStatusListener obj
  | RemoveBatteryStatusListener obj
  | DeleteButton bdaddr

datatype promise = Pending | Resolved obj | Rejected string

text \<open>
  The two timer callbacks of the source: the deadline of a connection attempt (an ordinary
  \<^verbatim>\<open>function\<close>, which receives its \<^verbatim>\<open>this\<close> from the caller) and the pairing deadline (an
  arrow function, whose \<^verbatim>\<open>this\<close> is the adapter).
\<close>

datatype callback = DeadlineCallback obj | PairingCallback

text \<open>The object bound to \<^verbatim>\<open>this\<close> when a callback runs.\<close>

datatype receiver = AdapterObj | TimeoutObj obj

text \<open>How the \<^verbatim>\<open>try\<close> block of \<^verbatim>\<open>addDevice\<close> completes: normally, or with a thrown value.\<close>

datatype completion = Normal | Thrown string

datatype log_entry = ConsoleError string | ConsoleWarn string

datatype host_msg =
    HandleDeviceAdded obj
  | HandleDeviceRemoved obj
  | NotifyPropertyChanged obj string
  | EventNotify obj string

record flic_button =
  fb_id :: string
  fb_name :: string
  fb_bdAddr :: bdaddr
  fb_cc :: obj
  fb_type :: "string list"
  fb_battery :: int
  fb_pushed :: bool
  fb_events :: "string list"
  fb_batteryStatusListener :: obj

text \<open>
  The frame of one \<^verbatim>\<open>addDevice\<close> call that tries to connect: its arguments, its local
  variable \<^verbatim>\<open>timeout\<close>, its promise \<^verbatim>\<open>p\<close>, and whether it is still suspended at
  \<^verbatim>\<open>await p\<close>. Frames are stored under the channel \<^verbatim>\<open>cc\<close> the call created.
\<close>

record attempt =
  att_bdAddr :: bdaddr
  att_name :: "string option"
  att_timeout :: "obj option"
  att_p :: promise
  att_awaiting :: bool

record adapter =
  devices :: "string \<rightharpoonup> obj"
  buttons :: "obj \<rightharpoonup> flic_button"
  connecting :: "bdaddr set"
  timeout :: "obj option"
  scanner :: "obj option"
  client :: "command list"
  listeners :: "obj \<Rightarrow> event_name \<Rightarrow> handler list"
  timers :: "obj \<rightharpoonup> callback \<times> int"
  frames :: "obj \<rightharpoonup> attempt"
  console :: "log_entry list"
  host :: "host_msg list"
  uncaught :: "string list"
  next_obj :: nat

text \<open>The adapter as its constructor leaves it (before the daemon reports ready).\<close>

definition new_FlicAdapter :: adapter where
  "new_FlicAdapter =
     \<lparr> devices = Map.empty, buttons = Map.empty, connecting = {}, timeout = None,
       scanner = None, client = [], listeners = (\<lambda>_ _. []), timers = Map.empty,
       frames = Map.empty, console = [], host = [], uncaught = [], next_obj = 0 \<rparr>"

section \<open>Event emitters, timers, promises\<close>

definition on :: "obj \<Rightarrow> event_name \<Rightarrow> handler \<Rightarrow> adapter \<Rightarrow> adapter" where
  "on emitter ev h st =
     st\<lparr>listeners := (listeners st)(emitter := ((listeners st emitter)(ev := listeners st emitter ev @ [h])))\<rparr>"

definition removeAllListeners :: "obj \<Rightarrow> event_name \<Rightarrow> adapter \<Rightarrow> adapter" where
  "removeAllListeners emitter ev st =
     st\<lparr>listeners := (listeners st)(emitter := ((listeners st emitter)(ev := [])))\<rparr>"

definition send :: "command \<Rightarrow> adapter \<Rightarrow> adapter" where
  "send c st = st\<lparr>client := client st @ [c]\<rparr>"

definition clearTimeout :: "obj \<Rightarrow> adapter \<Rightarrow> adapter" where
  "clearTimeout t st = st\<lparr>timers := (timers st)(t := None)\<rparr>"

text \<open>Settling a promise a second time has no effect.\<close>

definition resolve :: "obj \<Rightarrow> obj \<Rightarrow> adapter \<Rightarrow> adapter" where
  "resolve cc v st =
     (case frames st cc of
        None \<Rightarrow> st
      | Some f \<Rightarrow> if att_p f = Pending
                  then st\<lparr>frames := (frames st)(cc \<mapsto> f\<lparr>att_p := Resolved v\<rparr>)\<rparr>
                  else st)"

definition reject :: "obj \<Rightarrow> string \<Rightarrow> adapter \<Rightarrow> adapter" where
  "reject cc e st =
     (case frames st cc of
        None \<Rightarrow> st
      | Some f \<Rightarrow> if att_p f = Pending
                  then st\<lparr>frames := (frames st)(cc \<mapsto> f\<lparr>att_p := Rejected e\<rparr>)\<rparr>
                  else st)"

section \<open>FlicButton\<close>

text \<open>
  Modelled from the spec: the host's \<open>registerDevice\<close> and \<open>unregisterDevice\<close> (the
  \<^verbatim>\<open>Adapter\<close> base class of the gateway library, not under \<^verbatim>\<open>src/\<close>): registering
  publishes the device under its id, unregistering removes that id from the registry.
\<close>

definition handleDeviceAdded :: "obj \<Rightarrow> string \<Rightarrow> adapter \<Rightarrow> adapter" where
  "handleDeviceAdded b ident st =
     st\<lparr>devices := (devices st)(ident \<mapsto> b), host := host st @ [HandleDeviceAdded b]\<rparr>"

definition handleDeviceRemoved :: "obj \<Rightarrow> string \<Rightarrow> adapter \<Rightarrow> adapter" where
  "handleDeviceRemoved b ident st =
     st\<lparr>devices := (devices st)(ident := None), host := host st @ [HandleDeviceRemoved b]\<rparr>"

definition device_id :: "bdaddr \<Rightarrow> string" where
  "device_id bdAddr = ''flic-'' @ bdAddr"

text \<open>
  The constructor \<^verbatim>\<open>constructor(adapter, bdAddr, cc, client, name)\<close>. Its parameters are
  bound by position; \<open>client_arg\<close> is never read. A name that is \<^verbatim>\<open>undefined\<close> or the
  empty string is falsy.
\<close>

definition FlicButton ::
  "bdaddr \<Rightarrow> obj \<Rightarrow> string option \<Rightarrow> string option \<Rightarrow> adapter \<Rightarrow> adapter" where
  "FlicButton bdAddr cc client_arg name st =
     (let b = next_obj st;
          l = Suc (next_obj st);
          this = \<lparr> fb_id = device_id bdAddr,
                   fb_name = (case name of
                                Some n \<Rightarrow> if n \<noteq> [] then n else ''Flic button '' @ bdAddr
                              | None \<Rightarrow> ''Flic button '' @ bdAddr),
                   fb_bdAddr = bdAddr,
                   fb_cc = cc,
                   fb_type = [''PushButton''],
                   fb_battery = 100,
                   fb_pushed = False,
                   fb_events = [''hold'', ''doubleClick'', ''singleClick''],
                   fb_batteryStatusListener = l \<rparr>;
          st1 = st\<lparr>buttons := (buttons st)(b \<mapsto> this), next_obj := Suc (Suc (next_obj st))\<rparr>;
          st2 = on cc EvButtonUpOrDown (OnButtonUpOrDown b) st1;
          st3 = on cc EvButtonSingleOrDoubleClickOrHold (OnButtonSingleOrDoubleClickOrHold b) st2;
          st4 = on l EvBatteryStatus (OnBatteryStatus b) st3;
          st5 = send (AddBatteryStatusListener l) st4
      in handleDeviceAdded b (device_id bdAddr) st5)"

definition FlicButton_unload :: "flic_button \<Rightarrow> adapter \<Rightarrow> adapter" where
  "FlicButton_unload this st =
     (let st1 = removeAllListeners (fb_cc this) EvButtonUpOrDown st;
          st2 = send (RemoveConnectionChannel (fb_cc this)) st1
      in send (RemoveBatteryStatusListener (fb_batteryStatusListener this)) st2)"

section \<open>FlicAdapter\<close>

text \<open>
  \<^verbatim>\<open>addDevice\<close> after its \<^verbatim>\<open>try\<close> block: the \<^verbatim>\<open>catch\<close> clause when the block threw (a
  rejected \<^verbatim>\<open>p\<close> makes \<^verbatim>\<open>await p\<close> throw the reason), the \<^verbatim>\<open>finally\<close> clause, and the
  statement that follows the \<^verbatim>\<open>if\<close>.
\<close>

definition after_try :: "obj \<Rightarrow> completion \<Rightarrow> adapter \<Rightarrow> adapter" where
  "after_try cc c st =
     (case frames st cc of
        None \<Rightarrow> st
      | Some f \<Rightarrow>
          (let st1 = (case c of
                        Normal \<Rightarrow> st
                      | Thrown e \<Rightarrow>
                          send (RemoveConnectionChannel cc)
                            (st\<lparr>console := console st @ [ConsoleError e]\<rparr>));
               st2 = (case att_timeout f of
                        Some t \<Rightarrow> clearTimeout t st1
                      | None \<Rightarrow> st1);
               st3 = removeAllListeners cc EvCreateResponse st2;
               st4 = removeAllListeners cc EvConnectionStatusChanged st3;
               st5 = removeAllListeners cc EvRemoved st4;
               st6 = st5\<lparr>connecting := connecting st5 - {att_bdAddr f},
                         frames := (frames st5)(cc \<mapsto> f\<lparr>att_awaiting := False\<rparr>)\<rparr>
           in FlicButton (att_bdAddr f) cc (att_name f) None st6))"

text \<open>
  \<^verbatim>\<open>await p\<close>: nothing happens while \<^verbatim>\<open>p\<close> is pending; a fulfilled \<^verbatim>\<open>p\<close> lets the \<^verbatim>\<open>try\<close>
  block complete normally, a rejected one makes it throw the reason.
\<close>

fun await :: "promise \<Rightarrow> completion option" where
  "await Pending = None"
| "await (Resolved v) = Some Normal"
| "await (Rejected e) = Some (Thrown e)"

text \<open>The event loop continues a suspended \<^verbatim>\<open>addDevice\<close> whose promise is settled.\<close>

definition resume :: "obj \<Rightarrow> adapter \<Rightarrow> adapter" where
  "resume cc st =
     (case frames st cc of
        None \<Rightarrow> st
      | Some f \<Rightarrow>
          if att_awaiting f
          then (case await (att_p f) of
                  None \<Rightarrow> st
                | Some c \<Rightarrow> after_try cc c st)
          else st)"

text \<open>
  \<^verbatim>\<open>addDevice(bdAddr, name, tryToConnect)\<close> up to the point where it returns or suspends.
\<close>

definition addDevice :: "bdaddr \<Rightarrow> string option \<Rightarrow> bool \<Rightarrow> adapter \<Rightarrow> adapter" where
  "addDevice bdAddr name tryToConnect st =
     (if device_id bdAddr \<in> dom (devices st) \<or> bdAddr \<in> connecting st then st
      else
        let cc = next_obj st;
            st0 = st\<lparr>next_obj := Suc (next_obj st)\<rparr>
        in if tryToConnect
           then
             (let st1 = st0\<lparr>connecting := insert bdAddr (connecting st0),
                            frames := (frames st0)(cc \<mapsto>
                              \<lparr> att_bdAddr = bdAddr, att_name = name, att_timeout = None,
                                att_p = Pending, att_awaiting = True \<rparr>)\<rparr>;
                  st2 = on cc EvCreateResponse (OnCreateResponse cc) st1;
                  st3 = on cc EvConnectionStatusChanged (OnConnectionStatusChanged cc) st2;
                  st4 = on cc EvRemoved (OnRemoved cc) st3
              in send (AddConnectionChannel cc) st4)
           else FlicButton bdAddr cc name None (send (AddConnectionChannel cc) st0))"

definition cancelPairing :: "adapter \<Rightarrow> adapter" where
  "cancelPairing st =
     (let st1 = send (RemoveScanner (scanner st)) st;
          st2 = (case timeout st1 of Some t \<Rightarrow> clearTimeout t st1 | None \<Rightarrow> st1)
      in st2\<lparr>timeout := None, connecting := {}\<rparr>)"

definition startPairing :: "int \<Rightarrow> adapter \<Rightarrow> adapter" where
  "startPairing timeoutSeconds st =
     (if timeout st = None
      then
        (let s = next_obj st;
             t = Suc (next_obj st);
             st1 = st\<lparr>scanner := Some s, next_obj := Suc (Suc (next_obj st))\<rparr>;
             st2 = st1\<lparr>timers := (timers st1)(t \<mapsto> (PairingCallback, timeoutSeconds * 1000)),
                       timeout := Some t\<rparr>;
             st3 = on s EvAdvertisementPacket OnAdvertisementPacket st2
         in send (AddScanner s) st3)
      else st)"

text \<open>
  Modelled from the spec: \<^verbatim>\<open>super.removeThing\<close> is the host's \<open>unregisterDevice\<close>
  (\<open>handleDeviceRemoved\<close> above).
\<close>

definition removeThing :: "flic_button \<Rightarrow> obj \<Rightarrow> adapter \<Rightarrow> adapter" where
  "removeThing thing b st =
     (let st1 = FlicButton_unload thing st;
          st2 = send (DeleteButton (fb_bdAddr thing)) st1
      in handleDeviceRemoved b (fb_id thing) st2)"

text \<open>The callback of \<^verbatim>\<open>client.getInfo\<close> in the constructor.\<close>

definition getInfo_callback :: "bdaddr list \<Rightarrow> adapter \<Rightarrow> adapter" where
  "getInfo_callback bdAddrOfVerifiedButtons st =
     fold (\<lambda>bdAddr. addDevice bdAddr None False) bdAddrOfVerifiedButtons st"

section \<open>Listeners and callbacks\<close>

text \<open>The listener of \<^verbatim>\<open>advertisementPacket\<close> that \<^verbatim>\<open>startPairing\<close> installs.\<close>

definition on_advertisementPacket ::
  "bdaddr \<Rightarrow> string \<Rightarrow> int \<Rightarrow> bool \<Rightarrow> bool \<Rightarrow> adapter \<Rightarrow> adapter" where
  "on_advertisementPacket bdAddr name rssi isPrivate alreadyVerified st =
     (if isPrivate
      then st\<lparr>console := console st @
             [ConsoleWarn (''Your button '' @ name @
                '' is private. Hold down for 7 seconds to make it public.'')]\<rparr>
      else addDevice bdAddr (Some name) True st)"

text \<open>
  The deadline callback \<^verbatim>\<open>function() { this.client.removeConnectionChannel(cc); }\<close>.
  Only the adapter has a property \<^verbatim>\<open>client\<close>; on any other receiver \<^verbatim>\<open>this.client\<close> is
  \<^verbatim>\<open>undefined\<close> and the call on it throws a TypeError.
\<close>

definition deadline_callback :: "receiver \<Rightarrow> obj \<Rightarrow> adapter \<Rightarrow> string + adapter" where
  "deadline_callback this cc st =
     (case this of
        AdapterObj \<Rightarrow> Inr (send (RemoveConnectionChannel cc) st)
      | TimeoutObj t \<Rightarrow> Inl ''TypeError: this.client is undefined'')"

definition on_createResponse :: "obj \<Rightarrow> string \<Rightarrow> string \<Rightarrow> adapter \<Rightarrow> adapter" where
  "on_createResponse cc error connectionStatus st =
     (if connectionStatus = ''Ready'' then resolve cc cc st
      else if error \<noteq> ''NoError'' then reject cc ''Too many pending connections'' st
      else
        (let t = next_obj st;
             st1 = st\<lparr>timers := (timers st)(t \<mapsto> (DeadlineCallback cc, 30 * 1000)),
                      next_obj := Suc (next_obj st)\<rparr>
         in case frames st1 cc of
              None \<Rightarrow> st1
            | Some f \<Rightarrow> st1\<lparr>frames := (frames st1)(cc \<mapsto> f\<lparr>att_timeout := Some t\<rparr>)\<rparr>))"

definition on_connectionStatusChanged :: "obj \<Rightarrow> string \<Rightarrow> string \<Rightarrow> adapter \<Rightarrow> adapter" where
  "on_connectionStatusChanged cc connectionStatus disconnectReason st =
     (if connectionStatus = ''Ready'' then resolve cc cc st else st)"

definition on_removed :: "obj \<Rightarrow> string \<Rightarrow> adapter \<Rightarrow> adapter" where
  "on_removed cc removedReason st =
     (if removedReason = ''RemovedByThisClient'' then reject cc ''Timed out'' st
      else reject cc removedReason st)"

definition on_buttonUpOrDown :: "obj \<Rightarrow> string \<Rightarrow> adapter \<Rightarrow> adapter" where
  "on_buttonUpOrDown b clickType st =
     (case buttons st b of
        None \<Rightarrow> st
      | Some this \<Rightarrow>
          st\<lparr>buttons := (buttons st)(b \<mapsto> this\<lparr>fb_pushed := (clickType = ''ButtonDown'')\<rparr>),
             host := host st @ [NotifyPropertyChanged b ''pushed'']\<rparr>)"

definition on_buttonSingleOrDoubleClickOrHold :: "obj \<Rightarrow> string \<Rightarrow> adapter \<Rightarrow> adapter" where
  "on_buttonSingleOrDoubleClickOrHold b clickType st =
     (if clickType = ''ButtonHold'' then st\<lparr>host := host st @ [EventNotify b ''hold'']\<rparr>
      else if clickType = ''ButtonDoubleClick''
      then st\<lparr>host := host st @ [EventNotify b ''doubleClick'']\<rparr>
      else if clickType = ''ButtonSingleClick''
      then st\<lparr>host := host st @ [EventNotify b ''singleClick'']\<rparr>
      else st)"

definition on_batteryStatus :: "obj \<Rightarrow> int \<Rightarrow> adapter \<Rightarrow> adapter" where
  "on_batteryStatus b percentage st =
     (case buttons st b of
        None \<Rightarrow> st
      | Some this \<Rightarrow>
          st\<lparr>buttons := (buttons st)(b \<mapsto> this\<lparr>fb_battery := percentage\<rparr>),
             host := host st @ [NotifyPropertyChanged b ''battery'']\<rparr>)"

text \<open>
  One listener called with the arguments of an emitted event. A listener is only ever
  registered under the event it handles, so the last equation is never reached.
\<close>

fun run_handler :: "signal \<Rightarrow> handler \<Rightarrow> adapter \<Rightarrow> adapter" where
  "run_handler (CreateResponse error connectionStatus) (OnCreateResponse cc) st =
     on_createResponse cc error connectionStatus st"
| "run_handler (ConnectionStatusChanged connectionStatus disconnectReason)
     (OnConnectionStatusChanged cc) st =
     on_connectionStatusChanged cc connectionStatus disconnectReason st"
| "run_handler (Removed removedReason) (OnRemoved cc) st = on_removed cc removedReason st"
| "run_handler (ButtonUpOrDown clickType) (OnButtonUpOrDown b) st =
     on_buttonUpOrDown b clickType st"
| "run_handler (ButtonSingleOrDoubleClickOrHold clickType)
     (OnButtonSingleOrDoubleClickOrHold b) st =
     on_buttonSingleOrDoubleClickOrHold b clickType st"
| "run_handler (BatteryStatus percentage) (OnBatteryStatus b) st =
     on_batteryStatus b percentage st"
| "run_handler (AdvertisementPacket bdAddr name rssi isPrivate alreadyVerified)
     OnAdvertisementPacket st =
     on_advertisementPacket bdAddr name rssi isPrivate alreadyVerified st"
| "run_handler _ _ st = st"

text \<open>
  \<^verbatim>\<open>emitter.emit(event, ...)\<close>: the listeners registered when the event is emitted run in
  the order of their registration.
\<close>

definition emit :: "obj \<Rightarrow> signal \<Rightarrow> adapter \<Rightarrow> adapter" where
  "emit emitter sig st = fold (run_handler sig) (listeners st emitter (event_of sig)) st"

text \<open>
  An armed timer expires. The runtime calls the callback as a method of the timer object,
  so an ordinary \<^verbatim>\<open>function\<close> sees the timer as \<^verbatim>\<open>this\<close>; the arrow function of
  \<^verbatim>\<open>startPairing\<close> keeps the adapter. An exception of the callback is uncaught.
\<close>

definition fire :: "obj \<Rightarrow> adapter \<Rightarrow> adapter" where
  "fire t st =
     (case timers st t of
        None \<Rightarrow> st
      | Some (cb, delay) \<Rightarrow>
          (let st1 = st\<lparr>timers := (timers st)(t := None)\<rparr>
           in case cb of
                DeadlineCallback cc \<Rightarrow>
                  (case deadline_callback (TimeoutObj t) cc st1 of
                     Inl e \<Rightarrow> st1\<lparr>uncaught := uncaught st1 @ [e]\<rparr>
                   | Inr st2 \<Rightarrow> st2)
              | PairingCallback \<Rightarrow> cancelPairing st1))"

section \<open>The event loop\<close>

text \<open>
  Everything that can happen to the adapter between two turns of the event loop: the host
  or the constructor calls a method, an emitter emits an event, a settled \<^verbatim>\<open>await\<close> is
  continued, a timer expires.
\<close>

datatype action =
    AddDevice bdaddr "string option" bool
  | Emit obj signal
  | Resume obj
  | Fire obj
  | RemoveThing obj
  | StartPairing int
  | CancelPairing
  | GetInfo "bdaddr list"

fun step :: "action \<Rightarrow> adapter \<Rightarrow> adapter" where
  "step (AddDevice bdAddr name tryToConnect) st = addDevice bdAddr name tryToConnect st"
| "step (Emit emitter sig) st = emit emitter sig st"
| "step (Resume cc) st = resume cc st"
| "step (Fire t) st = fire t st"
| "step (RemoveThing b) st =
     (case buttons st b of None \<Rightarrow> st | Some thing \<Rightarrow> removeThing thing b st)"
| "step (StartPairing timeoutSeconds) st = startPairing timeoutSeconds st"
| "step CancelPairing st = cancelPairing st"
| "step (GetInfo bdAddrOfVerifiedButtons) st = getInfo_callback bdAddrOfVerifiedButtons st"

definition run :: "action list \<Rightarrow> adapter \<Rightarrow> adapter" where
  "run acts st = fold step acts st"

section \<open>Attempts in flight and the deduplication gate\<close>

text \<open>A connection attempt for address \<open>a\<close> on channel \<open>cc\<close> is in flight.\<close>

definition in_flight :: "adapter \<Rightarrow> obj \<Rightarrow> bdaddr \<Rightarrow> bool" where
  "in_flight st cc a =
     (case frames st cc of None \<Rightarrow> False | Some f \<Rightarrow> att_awaiting f \<and> att_bdAddr f = a)"





section \<open>Scenarios\<close>

text \<open>
  A pairing request for the public button \<^verbatim>\<open>AA:BB\<close>, named \<^verbatim>\<open>Btn\<close>: the attempt as
  \<^verbatim>\<open>addDevice\<close> leaves it (channel \<open>0\<close>), and after the daemon has answered
  \<^verbatim>\<open>createResponse("NoError", "Disconnected")\<close> (deadline timer \<open>1\<close>).
\<close>

definition pending_attempt :: adapter where
  "pending_attempt = addDevice ''AA:BB'' (Some ''Btn'') True new_FlicAdapter"

definition waiting_attempt :: adapter where
  "waiting_attempt = emit 0 (CreateResponse ''NoError'' ''Disconnected'') pending_attempt"

text \<open>The same attempt once the daemon has reported the channel removed by this client.\<close>

definition timed_out_attempt :: adapter where
  "timed_out_attempt = emit 0 (Removed ''RemovedByThisClient'') waiting_attempt"

text \<open>The button \<^verbatim>\<open>AA:BB\<close> registered at startup, without an attempt (button \<open>1\<close> on channel \<open>0\<close>).\<close>

definition verified_button :: adapter where
  "verified_button = getInfo_callback [''AA:BB''] new_FlicAdapter"

text \<open>
  A pairing session (scanner \<open>0\<close>) in which the button \<^verbatim>\<open>AA:BB\<close> advertises itself as
  public under the name \<^verbatim>\<open>F022abcd\<close>; the attempt uses channel \<open>2\<close>.
\<close>

definition discovered :: adapter where
  "discovered =
     run [StartPairing 60,
          Emit 0 (AdvertisementPacket ''AA:BB'' ''F022abcd'' (- 60) False False)]
       new_FlicAdapter"

section \<open>The effect of each operation, field by field\<close>

text \<open>
  Each operation changes a few fields of the state and leaves the others alone. The
  equations below say which, once and for all, so that later proofs never unfold an
  operation.
\<close>

lemma on_fields [simp]:
  "devices (on e ev h st) = devices st"
  "buttons (on e ev h st) = buttons st"
  "connecting (on e ev h st) = connecting st"
  "timeout (on e ev h st) = timeout st"
  "scanner (on e ev h st) = scanner st"
  "client (on e ev h st) = client st"
  "listeners (on e ev h st) = (listeners st)(e := (listeners st e)(ev := listeners st e ev @ [h]))"
  "timers (on e ev h st) = timers st"
  "frames (on e ev h st) = frames st"
  "console (on e ev h st) = console st"
  "host (on e ev h st) = host st"
  "uncaught (on e ev h st) = uncaught st"
  "next_obj (on e ev h st) = next_obj st"
  by (simp_all add: on_def split: option.splits)

lemma removeAllListeners_fields [simp]:
  "devices (removeAllListeners e ev st) = devices st"
  "buttons (removeAllListeners e ev st) = buttons st"
  "connecting (removeAllListeners e ev st) = connecting st"
  "timeout (removeAllListeners e ev st) = timeout st"
  "scanner (removeAllListeners e ev st) = scanner st"
  "client (removeAllListeners e ev st) = client st"
  "listeners (removeAllListeners e ev st) = (listeners st)(e := (listeners st e)(ev := []))"
  "timers (removeAllListeners e ev st) = timers st"
  "frames (removeAllListeners e ev st) = frames st"
  "console (removeAllListeners e ev st) = console st"
  "host (removeAllListeners e ev st) = host st"
  "uncaught (removeAllListeners e ev st) = uncaught st"
  "next_obj (removeAllListeners e ev st) = next_obj st"
  by (simp_all add: removeAllListeners_def split: option.splits)

lemma send_fields [simp]:
  "devices (send c st) = devices st"
  "buttons (send c st) = buttons st"
  "connecting (send c st) = connecting st"
  "timeout (send c st) = timeout st"
  "scanner (send c st) = scanner st"
  "client (send c st) = client st @ [c]"
  "listeners (send c st) = listeners st"
  "timers (send c st) = timers st"
  "frames (send c st) = frames st"
  "console (send c st) = console st"
  "host (send c st) = host st"
  "uncaught (send c st) = uncaught st"
  "next_obj (send c st) = next_obj st"
  by (simp_all add: send_def split: option.splits)

lemma clearTimeout_fields [simp]:
  "devices (clearTimeout t st) = devices st"
  "buttons (clearTimeout t st) = buttons st"
  "connecting (clearTimeout t st) = connecting st"
  "timeout (clearTimeout t st) = timeout st"
  "scanner (clearTimeout t st) = scanner st"
  "client (clearTimeout t st) = client st"
  "listeners (clearTimeout t st) = listeners st"
  "timers (clearTimeout t st) = (timers st)(t := None)"
  "frames (clearTimeout t st) = frames st"
  "console (clearTimeout t st) = console st"
  "host (clearTimeout t st) = host st"
  "uncaught (clearTimeout t st) = uncaught st"
  "next_obj (clearTimeout t st) = next_obj st"
  by (simp_all add: clearTimeout_def split: option.splits)

lemma resolve_fields [simp]:
  "devices (resolve cc v st) = devices st"
  "buttons (resolve cc v st) = buttons st"
  "connecting (resolve cc v st) = connecting st"
  "timeout (resolve cc v st) = timeout st"
  "scanner (resolve cc v st) = scanner st"
  "client (resolve cc v st) = client st"
  "listeners (resolve cc v st) = listeners st"
  "timers (resolve cc v st) = timers st"
  "frames (resolve cc v st) = (case frames st cc of None \<Rightarrow> frames st | Some f \<Rightarrow> if att_p f = Pending then (frames st)(cc \<mapsto> f\<lparr>att_p := Resolved v\<rparr>) else frames st)"
  "console (resolve cc v st) = console st"
  "host (resolve cc v st) = host st"
  "uncaught (resolve cc v st) = uncaught st"
  "next_obj (resolve cc v st) = next_obj st"
  by (simp_all add: resolve_def split: option.splits)

lemma reject_fields [simp]:
  "devices (reject cc e st) = devices st"
  "buttons (reject cc e st) = buttons st"
  "connecting (reject cc e st) = connecting st"
  "timeout (reject cc e st) = timeout st"
  "scanner (reject cc e st) = scanner st"
  "client (reject cc e st) = client st"
  "listeners (reject cc e st) = listeners st"
  "timers (reject cc e st) = timers st"
  "frames (reject cc e st) = (case frames st cc of None \<Rightarrow> frames st | Some f \<Rightarrow> if att_p f = Pending then (frames st)(cc \<mapsto> f\<lparr>att_p := Rejected e\<rparr>) else frames st)"
  "console (reject cc e st) = console st"
  "host (reject cc e st) = host st"
  "uncaught (reject cc e st) = uncaught st"
  "next_obj (reject cc e st) = next_obj st"
  by (simp_all add: reject_def split: option.splits)

lemma handleDeviceAdded_fields [simp]:
  "devices (handleDeviceAdded b ident st) = (devices st)(ident \<mapsto> b)"
  "buttons (handleDeviceAdded b ident st) = buttons st"
  "connecting (handleDeviceAdded b ident st) = connecting st"
  "timeout (handleDeviceAdded b ident st) = timeout st"
  "scanner (handleDeviceAdded b ident st) = scanner st"
  "client (handleDeviceAdded b ident st) = client st"
  "listeners (handleDeviceAdded b ident st) = listeners st"
  "timers (handleDeviceAdded b ident st) = timers st"
  "frames (handleDeviceAdded b ident st) = frames st"
  "console (handleDeviceAdded b ident st) = console st"
  "host (handleDeviceAdded b ident st) = host st @ [HandleDeviceAdded b]"
  "uncaught (handleDeviceAdded b ident st) = uncaught st"
  "next_obj (handleDeviceAdded b ident st) = next_obj st"
  by (simp_all add: handleDeviceAdded_def split: option.splits)

lemma handleDeviceRemoved_fields [simp]:
  "devices (handleDeviceRemoved b ident st) = (devices st)(ident := None)"
  "buttons (handleDeviceRemoved b ident st) = buttons st"
  "connecting (handleDeviceRemoved b ident st) = connecting st"
  "timeout (handleDeviceRemoved b ident st) = timeout st"
  "scanner (handleDeviceRemoved b ident st) = scanner st"
  "client (handleDeviceRemoved b ident st) = client st"
  "listeners (handleDeviceRemoved b ident st) = listeners st"
  "timers (handleDeviceRemoved b ident st) = timers st"
  "frames (handleDeviceRemoved b ident st) = frames st"
  "console (handleDeviceRemoved b ident st) = console st"
  "host (handleDeviceRemoved b ident st) = host st @ [HandleDeviceRemoved b]"
  "uncaught (handleDeviceRemoved b ident st) = uncaught st"
  "next_obj (handleDeviceRemoved b ident st) = next_obj st"
  by (simp_all add: handleDeviceRemoved_def split: option.splits)

lemma FlicButton_fields [simp]:
  "devices (FlicButton bdAddr cc client_arg name st) = (devices st)(device_id bdAddr \<mapsto> next_obj st)"
  "buttons (FlicButton bdAddr cc client_arg name st) = (buttons st)(next_obj st \<mapsto> \<lparr> fb_id = device_id bdAddr,
          fb_name = (case name of Some n \<Rightarrow> if n \<noteq> [] then n else ''Flic button '' @ bdAddr
                     | None \<Rightarrow> ''Flic button '' @ bdAddr),
          fb_bdAddr = bdAddr, fb_cc = cc, fb_type = [''PushButton''], fb_battery = 100,
          fb_pushed = False, fb_events = [''hold'', ''doubleClick'', ''singleClick''],
          fb_batteryStatusListener = Suc (next_obj st) \<rparr>)"
  "connecting (FlicButton bdAddr cc client_arg name st) = connecting st"
  "timeout (FlicButton bdAddr cc client_arg name st) = timeout st"
  "scanner (FlicButton bdAddr cc client_arg name st) = scanner st"
  "client (FlicButton bdAddr cc client_arg name st) = client st @ [AddBatteryStatusListener (Suc (next_obj st))]"
  "listeners (FlicButton bdAddr cc client_arg name st) = listeners (on (Suc (next_obj st)) EvBatteryStatus (OnBatteryStatus (next_obj st)) (on cc EvButtonSingleOrDoubleClickOrHold (OnButtonSingleOrDoubleClickOrHold (next_obj st)) (on cc EvButtonUpOrDown (OnButtonUpOrDown (next_obj st)) st)))"
  "timers (FlicButton bdAddr cc client_arg name st) = timers st"
  "frames (FlicButton bdAddr cc client_arg name st) = frames st"
  "console (FlicButton bdAddr cc client_arg name st) = console st"
  "host (FlicButton bdAddr cc client_arg name st) = host st @ [HandleDeviceAdded (next_obj st)]"
  "uncaught (FlicButton bdAddr cc client_arg name st) = uncaught st"
  "next_obj (FlicButton bdAddr cc client_arg name st) = Suc (Suc (next_obj st))"
  by (simp_all add: FlicButton_def Let_def split: option.splits)

lemma FlicButton_unload_fields [simp]:
  "devices (FlicButton_unload this st) = devices st"
  "buttons (FlicButton_unload this st) = buttons st"
  "connecting (FlicButton_unload this st) = connecting st"
  "timeout (FlicButton_unload this st) = timeout st"
  "scanner (FlicButton_unload this st) = scanner st"
  "client (FlicButton_unload this st) = client st @ [RemoveConnectionChannel (fb_cc this), RemoveBatteryStatusListener (fb_batteryStatusListener this)]"
  "listeners (FlicButton_unload this st) = (listeners st)(fb_cc this := (listeners st (fb_cc this))(EvButtonUpOrDown := []))"
  "timers (FlicButton_unload this st) = timers st"
  "frames (FlicButton_unload this st) = frames st"
  "console (FlicButton_unload this st) = console st"
  "host (FlicButton_unload this st) = host st"
  "uncaught (FlicButton_unload this st) = uncaught st"
  "next_obj (FlicButton_unload this st) = next_obj st"
  by (simp_all add: FlicButton_unload_def Let_def split: option.splits)

lemma cancelPairing_fields [simp]:
  "devices (cancelPairing st) = devices st"
  "buttons (cancelPairing st) = buttons st"
  "connecting (cancelPairing st) = {}"
  "timeout (cancelPairing st) = None"
  "scanner (cancelPairing st) = scanner st"
  "client (cancelPairing st) = client st @ [RemoveScanner (scanner st)]"
  "listeners (cancelPairing st) = listeners st"
  "timers (cancelPairing st) = (case timeout st of Some t \<Rightarrow> (timers st)(t := None) | None \<Rightarrow> timers st)"
  "frames (cancelPairing st) = frames st"
  "console (cancelPairing st) = console st"
  "host (cancelPairing st) = host st"
  "uncaught (cancelPairing st) = uncaught st"
  "next_obj (cancelPairing st) = next_obj st"
  by (simp_all add: cancelPairing_def Let_def split: option.splits)

lemma removeThing_fields [simp]:
  "devices (removeThing thing b st) = (devices st)(fb_id thing := None)"
  "buttons (removeThing thing b st) = buttons st"
  "connecting (removeThing thing b st) = connecting st"
  "timeout (removeThing thing b st) = timeout st"
  "scanner (removeThing thing b st) = scanner st"
  "client (removeThing thing b st) = client st @ [RemoveConnectionChannel (fb_cc thing), RemoveBatteryStatusListener (fb_batteryStatusListener thing), DeleteButton (fb_bdAddr thing)]"
  "listeners (removeThing thing b st) = (listeners st)(fb_cc thing := (listeners st (fb_cc thing))(EvButtonUpOrDown := []))"
  "timers (removeThing thing b st) = timers st"
  "frames (removeThing thing b st) = frames st"
  "console (removeThing thing b st) = console st"
  "host (removeThing thing b st) = host st @ [HandleDeviceRemoved b]"
  "uncaught (removeThing thing b st) = uncaught st"
  "next_obj (removeThing thing b st) = next_obj st"
  by (simp_all add: removeThing_def Let_def split: option.splits)

lemma after_try_fields:
  assumes "frames st cc = Some f"
  shows "devices (after_try cc c st) = (devices st)(device_id (att_bdAddr f) \<mapsto> next_obj st)"
    and "connecting (after_try cc c st) = connecting st - {att_bdAddr f}"
    and "timeout (after_try cc c st) = timeout st"
    and "scanner (after_try cc c st) = scanner st"
    and "client (after_try cc c st) =
           client st @ (case c of Normal \<Rightarrow> [] | Thrown e \<Rightarrow> [RemoveConnectionChannel cc])
             @ [AddBatteryStatusListener (Suc (next_obj st))]"
    and "timers (after_try cc c st) =
           (case att_timeout f of Some t \<Rightarrow> (timers st)(t := None) | None \<Rightarrow> timers st)"
    and "frames (after_try cc c st) = (frames st)(cc \<mapsto> f\<lparr>att_awaiting := False\<rparr>)"
    and "console (after_try cc c st) =
           console st @ (case c of Normal \<Rightarrow> [] | Thrown e \<Rightarrow> [ConsoleError e])"
    and "host (after_try cc c st) = host st @ [HandleDeviceAdded (next_obj st)]"
    and "uncaught (after_try cc c st) = uncaught st"
    and "next_obj (after_try cc c st) = Suc (Suc (next_obj st))"
  using assms
  by (simp_all add: after_try_def Let_def split: completion.splits option.splits)

lemma after_try_buttons:
  assumes "frames st cc = Some f"
  shows "buttons (after_try cc c st) (next_obj st) =
     Some \<lparr> fb_id = device_id (att_bdAddr f), fb_name = ''Flic button '' @ att_bdAddr f,
          fb_bdAddr = att_bdAddr f, fb_cc = cc, fb_type = [''PushButton''], fb_battery = 100,
          fb_pushed = False, fb_events = [''hold'', ''doubleClick'', ''singleClick''],
          fb_batteryStatusListener = Suc (next_obj st) \<rparr>"
  using assms
  by (simp add: after_try_def Let_def split: completion.splits option.splits)

lemma after_try_listeners:
  assumes "frames st cc = Some f"
    and "ev \<in> {EvCreateResponse, EvConnectionStatusChanged, EvRemoved}"
  shows "listeners (after_try cc c st) cc ev = []"
  using assms
  by (auto simp add: after_try_def Let_def split: completion.splits option.splits)





lemma resume_settled:
  assumes "frames st cc = Some f" and "att_awaiting f" and "await (att_p f) = Some c"
  shows "resume cc st = after_try cc c st"
  using assms by (simp add: resume_def)

lemma emit_single:
  assumes "listeners st emitter (event_of sig) = [h]"
  shows "emit emitter sig st = run_handler sig h st"
  using assms by (simp add: emit_def)

lemma emit_none:
  assumes "listeners st emitter (event_of sig) = []"
  shows "emit emitter sig st = st"
  using assms by (simp add: emit_def)

section \<open>At most one attempt or device per address\<close>

lemma in_flight_resolve [simp]: "in_flight (resolve cc v st) c a = in_flight st c a"
  by (simp add: in_flight_def split: option.splits)

lemma in_flight_reject [simp]: "in_flight (reject cc e st) c a = in_flight st c a"
  by (simp add: in_flight_def split: option.splits)

lemma device_id_inj [simp]: "device_id a = device_id b \<longleftrightarrow> a = b"
  by (simp add: device_id_def)






































section \<open>Evaluating the scenarios\<close>

lemmas eval_defs =
  new_FlicAdapter_def on_def removeAllListeners_def send_def clearTimeout_def resolve_def
  reject_def handleDeviceAdded_def handleDeviceRemoved_def device_id_def FlicButton_def
  FlicButton_unload_def after_try_def resume_def addDevice_def cancelPairing_def
  startPairing_def removeThing_def getInfo_callback_def on_advertisementPacket_def
  deadline_callback_def on_createResponse_def on_connectionStatusChanged_def on_removed_def
  on_buttonUpOrDown_def on_buttonSingleOrDoubleClickOrHold_def on_batteryStatus_def
  emit_def fire_def run_def Let_def

lemma pending_attempt_eval:
  "pending_attempt =
     \<lparr> devices = Map.empty, buttons = Map.empty, connecting = {''AA:BB''}, timeout = None,
       scanner = None, client = [AddConnectionChannel 0],
       listeners = (\<lambda>_ _. [])(0 := (\<lambda>_. [])(EvCreateResponse := [OnCreateResponse 0],
                      EvConnectionStatusChanged := [OnConnectionStatusChanged 0],
                      EvRemoved := [OnRemoved 0])),
       timers = Map.empty,
       frames = [0 \<mapsto> \<lparr> att_bdAddr = ''AA:BB'', att_name = Some ''Btn'', att_timeout = None,
                            att_p = Pending, att_awaiting = True \<rparr>],
       console = [], host = [], uncaught = [], next_obj = 1 \<rparr>"
  unfolding pending_attempt_def by (simp add: eval_defs)

lemma waiting_attempt_eval:
  "waiting_attempt =
     \<lparr> devices = Map.empty, buttons = Map.empty, connecting = {''AA:BB''}, timeout = None,
       scanner = None, client = [AddConnectionChannel 0],
       listeners = (\<lambda>_ _. [])(0 := (\<lambda>_. [])(EvCreateResponse := [OnCreateResponse 0],
                      EvConnectionStatusChanged := [OnConnectionStatusChanged 0],
                      EvRemoved := [OnRemoved 0])),
       timers = [1 \<mapsto> (DeadlineCallback 0, 30000)],
       frames = [0 \<mapsto> \<lparr> att_bdAddr = ''AA:BB'', att_name = Some ''Btn'', att_timeout = Some 1,
                            att_p = Pending, att_awaiting = True \<rparr>],
       console = [], host = [], uncaught = [], next_obj = 2 \<rparr>"
  unfolding waiting_attempt_def pending_attempt_eval by (simp add: eval_defs)

lemma timed_out_attempt_eval:
  "timed_out_attempt =
     \<lparr> devices = Map.empty, buttons = Map.empty, connecting = {''AA:BB''}, timeout = None,
       scanner = None, client = [AddConnectionChannel 0],
       listeners = (\<lambda>_ _. [])(0 := (\<lambda>_. [])(EvCreateResponse := [OnCreateResponse 0],
                      EvConnectionStatusChanged := [OnConnectionStatusChanged 0],
                      EvRemoved := [OnRemoved 0])),
       timers = [1 \<mapsto> (DeadlineCallback 0, 30000)],
       frames = [0 \<mapsto> \<lparr> att_bdAddr = ''AA:BB'', att_name = Some ''Btn'', att_timeout = Some 1,
                            att_p = Rejected ''Timed out'', att_awaiting = True \<rparr>],
       console = [], host = [], uncaught = [], next_obj = 2 \<rparr>"
  unfolding timed_out_attempt_def waiting_attempt_eval by (simp add: eval_defs)

lemma discovered_eval:
  "discovered =
     \<lparr> devices = Map.empty, buttons = Map.empty, connecting = {''AA:BB''}, timeout = Some 1,
       scanner = Some 0, client = [AddScanner 0, AddConnectionChannel 2],
       listeners = (\<lambda>_ _. [])(0 := (\<lambda>_. [])(EvAdvertisementPacket := [OnAdvertisementPacket]),
                      2 := (\<lambda>_. [])(EvCreateResponse := [OnCreateResponse 2],
                      EvConnectionStatusChanged := [OnConnectionStatusChanged 2],
                      EvRemoved := [OnRemoved 2])),
       timers = [1 \<mapsto> (PairingCallback, 60000)],
       frames = [2 \<mapsto> \<lparr> att_bdAddr = ''AA:BB'', att_name = Some ''F022abcd'',
                            att_timeout = None, att_p = Pending, att_awaiting = True \<rparr>],
       console = [], host = [], uncaught = [], next_obj = 3 \<rparr>"
  unfolding discovered_def by (simp add: eval_defs eval_nat_numeral)

section \<open>The claims\<close>

text \<open>
  C1. The spec says that a connection attempt which fails (Rejected, TimedOut or
  RemovedOther) creates no device and registers none with the host. In
  \<^verbatim>\<open>addDevice\<close> the \<^verbatim>\<open>catch\<close> clause logs the reason and releases the channel, but it
  does not return, and \<^verbatim>\<open>new FlicButton(...)\<close> follows the \<^verbatim>\<open>if\<close> for every outcome.
  For the attempt on \<^verbatim>\<open>AA:BB\<close> answered by
  \<^verbatim>\<open>createResponse("MaxPendingConnectionsReached", "Disconnected")\<close>, the continued call
  registers button \<open>1\<close> under \<^verbatim>\<open>flic-AA:BB\<close>, on the channel it has just released.
\<close>

theorem failed_attempt_registers_device:
  "devices (resume 0 (emit 0 (CreateResponse ''MaxPendingConnectionsReached'' ''Disconnected'')
              pending_attempt)) ''flic-AA:BB'' = Some 1
   \<and> map_option fb_cc
        (buttons (resume 0 (emit 0 (CreateResponse ''MaxPendingConnectionsReached'' ''Disconnected'')
              pending_attempt)) 1) = Some 0
   \<and> client (resume 0 (emit 0 (CreateResponse ''MaxPendingConnectionsReached'' ''Disconnected'')
              pending_attempt)) =
       [AddConnectionChannel 0, RemoveConnectionChannel 0, AddBatteryStatusListener 2]
   \<and> console (resume 0 (emit 0 (CreateResponse ''MaxPendingConnectionsReached'' ''Disconnected'')
              pending_attempt)) = [ConsoleError ''Too many pending connections'']
   \<and> host (resume 0 (emit 0 (CreateResponse ''MaxPendingConnectionsReached'' ''Disconnected'')
              pending_attempt)) = [HandleDeviceAdded 1]"
  unfolding pending_attempt_eval by (simp add: eval_defs)

text \<open>
  C2. The spec says that the deadline timer of a waiting attempt, when it fires, asks the
  daemon client to remove the channel, so that the \<^verbatim>\<open>removed("RemovedByThisClient")\<close>
  signal resolves the attempt as timed out. The callback is an ordinary \<^verbatim>\<open>function\<close>, so
  its \<^verbatim>\<open>this\<close> is the timer, not the adapter, and \<^verbatim>\<open>this.client\<close> is undefined: when
  timer \<open>1\<close> of the waiting attempt fires, the callback throws, no command reaches the
  daemon client, and the attempt stays in flight with its address in \<^verbatim>\<open>connecting\<close>.
\<close>

theorem deadline_timer_throws:
  "fire 1 waiting_attempt =
     waiting_attempt\<lparr>timers := Map.empty, uncaught := [''TypeError: this.client is undefined'']\<rparr>
   \<and> client (fire 1 waiting_attempt) = [AddConnectionChannel 0]
   \<and> in_flight (fire 1 waiting_attempt) 0 ''AA:BB''
   \<and> map_option att_p (frames (fire 1 waiting_attempt) 0) = Some Pending
   \<and> ''AA:BB'' \<in> connecting (fire 1 waiting_attempt)"
  unfolding waiting_attempt_eval by (simp add: eval_defs in_flight_def)

text \<open>
  C3. Whenever \<^verbatim>\<open>addDevice\<close> leaves its \<^verbatim>\<open>try\<close> block, normally (Ready) or with a thrown
  value (the reason of a rejected promise: Rejected, TimedOut, RemovedOther; or an
  exception), the timer held in \<^verbatim>\<open>timeout\<close> is cancelled, the channel has no listener left
  for \<^verbatim>\<open>createResponse\<close>, \<^verbatim>\<open>connectionStatusChanged\<close> and \<^verbatim>\<open>removed\<close>, and the address is
  no longer in \<^verbatim>\<open>connecting\<close>; any of the three signals emitted afterwards changes
  nothing. Continuing a suspended call whose promise is settled is such an exit.
\<close>

theorem attempt_teardown:
  assumes "frames st cc = Some f"
  shows "(att_awaiting f \<and> await (att_p f) = Some c \<longrightarrow> resume cc st = after_try cc c st)
       \<and> (\<forall>t. att_timeout f = Some t \<longrightarrow> timers (after_try cc c st) t = None)
       \<and> listeners (after_try cc c st) cc EvCreateResponse = []
       \<and> listeners (after_try cc c st) cc EvConnectionStatusChanged = []
       \<and> listeners (after_try cc c st) cc EvRemoved = []
       \<and> att_bdAddr f \<notin> connecting (after_try cc c st)
       \<and> (\<forall>sig. event_of sig \<in> {EvCreateResponse, EvConnectionStatusChanged, EvRemoved}
              \<longrightarrow> emit cc sig (after_try cc c st) = after_try cc c st)"
proof -
  have r: "att_awaiting f \<and> await (att_p f) = Some c \<longrightarrow> resume cc st = after_try cc c st"
    using assms by (simp add: resume_settled)
  have t: "\<forall>t. att_timeout f = Some t \<longrightarrow> timers (after_try cc c st) t = None"
    using assms by (simp add: after_try_fields)
  have l: "listeners (after_try cc c st) cc ev = []"
    if "ev \<in> {EvCreateResponse, EvConnectionStatusChanged, EvRemoved}" for ev
    using assms that by (rule after_try_listeners)
  have p: "att_bdAddr f \<notin> connecting (after_try cc c st)"
    using assms by (simp add: after_try_fields)
  have e: "emit cc sig (after_try cc c st) = after_try cc c st"
    if "event_of sig \<in> {EvCreateResponse, EvConnectionStatusChanged, EvRemoved}" for sig
    using l [OF that] by (rule emit_none)
  from r t l p e show ?thesis by simp
qed

theorem attempt_teardown_witness:
  "frames timed_out_attempt 0 =
     Some \<lparr> att_bdAddr = ''AA:BB'', att_name = Some ''Btn'', att_timeout = Some 1,
            att_p = Rejected ''Timed out'', att_awaiting = True \<rparr>
   \<and> resume 0 timed_out_attempt = after_try 0 (Thrown ''Timed out'') timed_out_attempt
   \<and> timers (resume 0 timed_out_attempt) 1 = None
   \<and> listeners (resume 0 timed_out_attempt) 0 EvCreateResponse = []
   \<and> listeners (resume 0 timed_out_attempt) 0 EvConnectionStatusChanged = []
   \<and> listeners (resume 0 timed_out_attempt) 0 EvRemoved = []
   \<and> ''AA:BB'' \<notin> connecting (resume 0 timed_out_attempt)
   \<and> emit 0 (ConnectionStatusChanged ''Ready'' ''Unspecified'') (resume 0 timed_out_attempt) =
       resume 0 timed_out_attempt"
proof -
  let ?f = "\<lparr> att_bdAddr = ''AA:BB'', att_name = Some ''Btn'', att_timeout = Some 1,
              att_p = Rejected ''Timed out'', att_awaiting = True \<rparr>"
  have h: "frames timed_out_attempt 0 = Some ?f"
    by (simp add: timed_out_attempt_eval)
  note t = attempt_teardown [OF h, of "Thrown ''Timed out''"]
  from t have r: "resume 0 timed_out_attempt = after_try 0 (Thrown ''Timed out'') timed_out_attempt"
    by simp
  from t have "\<forall>sig. event_of sig \<in> {EvCreateResponse, EvConnectionStatusChanged, EvRemoved}
      \<longrightarrow> emit 0 sig (after_try 0 (Thrown ''Timed out'') timed_out_attempt) =
           after_try 0 (Thrown ''Timed out'') timed_out_attempt"
    by blast
  then have e: "emit 0 (ConnectionStatusChanged ''Ready'' ''Unspecified'')
                  (after_try 0 (Thrown ''Timed out'') timed_out_attempt) =
                after_try 0 (Thrown ''Timed out'') timed_out_attempt"
    by simp
  from t h e show ?thesis
    unfolding r by simp
qed




text \<open>
  C5. The spec says that unregistering a device removes every subscription its
  construction made, so that no listener is left on the channel. \<^verbatim>\<open>unload\<close> removes the
  listeners of \<^verbatim>\<open>buttonUpOrDown\<close>, the channel and the battery listener, but not the
  listener of \<^verbatim>\<open>buttonSingleOrDoubleClickOrHold\<close>. For the button \<^verbatim>\<open>AA:BB\<close> registered at
  startup and then removed, the registry and \<^verbatim>\<open>connecting\<close> are as before, yet the click
  listener is still on channel \<open>0\<close>, and a click emitted there still notifies the host.
\<close>

theorem unload_leaves_click_listener:
  "devices verified_button ''flic-AA:BB'' = Some 1
   \<and> listeners verified_button 0 EvButtonUpOrDown = [OnButtonUpOrDown 1]
   \<and> listeners verified_button 0 EvButtonSingleOrDoubleClickOrHold =
        [OnButtonSingleOrDoubleClickOrHold 1]
   \<and> devices (step (RemoveThing 1) verified_button) = devices new_FlicAdapter
   \<and> connecting (step (RemoveThing 1) verified_button) = connecting new_FlicAdapter
   \<and> client (step (RemoveThing 1) verified_button) =
        [AddConnectionChannel 0, AddBatteryStatusListener 2, RemoveConnectionChannel 0,
         RemoveBatteryStatusListener 2, DeleteButton ''AA:BB'']
   \<and> listeners (step (RemoveThing 1) verified_button) 0 EvButtonUpOrDown = []
   \<and> listeners (step (RemoveThing 1) verified_button) 0 EvButtonSingleOrDoubleClickOrHold =
        [OnButtonSingleOrDoubleClickOrHold 1]
   \<and> host (emit 0 (ButtonSingleOrDoubleClickOrHold ''ButtonSingleClick'')
              (step (RemoveThing 1) verified_button)) =
        [HandleDeviceAdded 1, HandleDeviceRemoved 1, EventNotify 1 ''singleClick'']"
  unfolding verified_button_def by (simp add: eval_defs)

text \<open>
  C6. A pending attempt that receives \<^verbatim>\<open>createResponse\<close> with an error other than
  \<^verbatim>\<open>"NoError"\<close> and a status other than \<^verbatim>\<open>"Ready"\<close> has its promise rejected with
  \<^verbatim>\<open>"Too many pending connections"\<close>, and the signal changes nothing else: no timer is
  armed. When the call is continued, it logs that reason and asks the daemon client to
  remove the channel, and no timer is armed that was not armed before.
\<close>

theorem createResponse_error_rejects:
  assumes "frames st cc = Some f" and "att_awaiting f" and "att_p f = Pending"
    and "listeners st cc EvCreateResponse = [OnCreateResponse cc]"
    and "error \<noteq> ''NoError''" and "connectionStatus \<noteq> ''Ready''"
  shows "emit cc (CreateResponse error connectionStatus) st =
           st\<lparr>frames := (frames st)(cc \<mapsto> f\<lparr>att_p := Rejected ''Too many pending connections''\<rparr>)\<rparr>
       \<and> console (resume cc (emit cc (CreateResponse error connectionStatus) st)) =
           console st @ [ConsoleError ''Too many pending connections'']
       \<and> take (Suc (length (client st)))
            (client (resume cc (emit cc (CreateResponse error connectionStatus) st))) =
           client st @ [RemoveConnectionChannel cc]
       \<and> timers (resume cc (emit cc (CreateResponse error connectionStatus) st)) \<subseteq>\<^sub>m timers st"
proof -
  let ?st1 = "st\<lparr>frames := (frames st)(cc \<mapsto> f\<lparr>att_p := Rejected ''Too many pending connections''\<rparr>)\<rparr>"
  have e: "emit cc (CreateResponse error connectionStatus) st = ?st1"
    using assms by (simp add: emit_single on_createResponse_def reject_def)
  have fr: "frames ?st1 cc = Some (f\<lparr>att_p := Rejected ''Too many pending connections''\<rparr>)"
    by simp
  have r: "resume cc ?st1 = after_try cc (Thrown ''Too many pending connections'') ?st1"
    using assms(2) by (simp add: resume_settled [OF fr])
  show ?thesis
    unfolding e r
    by (simp add: after_try_fields [OF fr] map_le_def split: option.splits)
qed

theorem createResponse_error_rejects_witness:
  "frames pending_attempt 0 =
     Some \<lparr> att_bdAddr = ''AA:BB'', att_name = Some ''Btn'', att_timeout = None,
            att_p = Pending, att_awaiting = True \<rparr>
   \<and> listeners pending_attempt 0 EvCreateResponse = [OnCreateResponse 0]
   \<and> ''MaxPendingConnectionsReached'' \<noteq> ''NoError'' \<and> ''Disconnected'' \<noteq> ''Ready''
   \<and> map_option att_p
        (frames (emit 0 (CreateResponse ''MaxPendingConnectionsReached'' ''Disconnected'')
           pending_attempt) 0) = Some (Rejected ''Too many pending connections'')
   \<and> console (resume 0 (emit 0 (CreateResponse ''MaxPendingConnectionsReached'' ''Disconnected'')
        pending_attempt)) = [ConsoleError ''Too many pending connections'']
   \<and> take 2 (client (resume 0 (emit 0 (CreateResponse ''MaxPendingConnectionsReached''
        ''Disconnected'') pending_attempt))) = [AddConnectionChannel 0, RemoveConnectionChannel 0]
   \<and> timers (resume 0 (emit 0 (CreateResponse ''MaxPendingConnectionsReached'' ''Disconnected'')
        pending_attempt)) = Map.empty"
proof -
  let ?f = "\<lparr> att_bdAddr = ''AA:BB'', att_name = Some ''Btn'', att_timeout = None,
              att_p = Pending, att_awaiting = True \<rparr>"
  have h: "frames pending_attempt 0 = Some ?f" "att_awaiting ?f" "att_p ?f = Pending"
    "listeners pending_attempt 0 EvCreateResponse = [OnCreateResponse 0]"
    "''MaxPendingConnectionsReached'' \<noteq> ''NoError''" "''Disconnected'' \<noteq> ''Ready''"
    by (simp_all add: pending_attempt_eval)
  have c: "client pending_attempt = [AddConnectionChannel 0]" "console pending_attempt = []"
    "timers pending_attempt = Map.empty"
    by (simp_all add: pending_attempt_eval)
  from createResponse_error_rejects [OF h] h(1,4)
  show ?thesis
    by (auto simp add: c numeral_2_eq_2 intro: map_le_antisym)
qed

text \<open>
  C7. \<^verbatim>\<open>cancelPairing\<close> asks the daemon client to remove the scanner, cancels the pairing
  timer and empties \<^verbatim>\<open>connecting\<close>. It leaves every suspended \<^verbatim>\<open>addDevice\<close> call, every
  listener and the registry as they are, and asks for no channel to be removed: an attempt
  that is in flight when pairing is cancelled and whose channel then reports \<^verbatim>\<open>"Ready"\<close>
  still registers a device when it is continued.
\<close>

theorem cancelPairing_leaves_attempts:
  "client (cancelPairing st) = client st @ [RemoveScanner (scanner st)]
   \<and> timeout (cancelPairing st) = None
   \<and> (\<forall>t. timeout st = Some t \<longrightarrow> timers (cancelPairing st) t = None)
   \<and> connecting (cancelPairing st) = {}
   \<and> frames (cancelPairing st) = frames st
   \<and> listeners (cancelPairing st) = listeners st
   \<and> devices (cancelPairing st) = devices st
   \<and> (\<forall>cc f r. frames st cc = Some f \<and> att_awaiting f \<and> att_p f = Pending
         \<and> listeners st cc EvConnectionStatusChanged = [OnConnectionStatusChanged cc]
       \<longrightarrow> devices (resume cc (emit cc (ConnectionStatusChanged ''Ready'' r) (cancelPairing st)))
             (device_id (att_bdAddr f)) = Some (next_obj st))"
proof -
  have late: "devices (resume cc (emit cc (ConnectionStatusChanged ''Ready'' r) (cancelPairing st)))
             (device_id (att_bdAddr f)) = Some (next_obj st)"
    if h: "frames st cc = Some f" "att_awaiting f" "att_p f = Pending"
       "listeners st cc EvConnectionStatusChanged = [OnConnectionStatusChanged cc]" for cc f r
  proof -
    let ?c = "cancelPairing st"
    let ?st1 = "?c\<lparr>frames := (frames st)(cc \<mapsto> f\<lparr>att_p := Resolved cc\<rparr>)\<rparr>"
    have e: "emit cc (ConnectionStatusChanged ''Ready'' r) ?c = ?st1"
      using h by (simp add: emit_single on_connectionStatusChanged_def resolve_def)
    have fr: "frames ?st1 cc = Some (f\<lparr>att_p := Resolved cc\<rparr>)"
      by simp
    have r: "resume cc ?st1 = after_try cc Normal ?st1"
      using h(2) by (simp add: resume_settled [OF fr])
    show ?thesis
      unfolding e r by (simp add: after_try_fields [OF fr])
  qed
  show ?thesis
    using late by simp
qed

theorem cancelPairing_leaves_attempts_witness:
  "client (cancelPairing discovered) = [AddScanner 0, AddConnectionChannel 2, RemoveScanner (Some 0)]
   \<and> timeout discovered = Some 1 \<and> timers (cancelPairing discovered) 1 = None
   \<and> connecting (cancelPairing discovered) = {}
   \<and> frames (cancelPairing discovered) 2 =
        Some \<lparr> att_bdAddr = ''AA:BB'', att_name = Some ''F022abcd'', att_timeout = None,
               att_p = Pending, att_awaiting = True \<rparr>
   \<and> listeners discovered 2 EvConnectionStatusChanged = [OnConnectionStatusChanged 2]
   \<and> devices (resume 2 (emit 2 (ConnectionStatusChanged ''Ready'' ''Unspecified'')
                 (cancelPairing discovered))) ''flic-AA:BB'' = Some 3"
proof -
  let ?f = "\<lparr> att_bdAddr = ''AA:BB'', att_name = Some ''F022abcd'', att_timeout = None,
              att_p = Pending, att_awaiting = True \<rparr>"
  have h: "frames discovered 2 = Some ?f \<and> att_awaiting ?f \<and> att_p ?f = Pending
       \<and> listeners discovered 2 EvConnectionStatusChanged = [OnConnectionStatusChanged 2]"
    by (simp add: discovered_eval)
  have c: "client discovered = [AddScanner 0, AddConnectionChannel 2]" "scanner discovered = Some 0"
    "timeout discovered = Some 1" "next_obj discovered = 3"
    by (simp_all add: discovered_eval)
  note t = cancelPairing_leaves_attempts [of discovered]
  from t have late: "frames discovered 2 = Some ?f \<and> att_awaiting ?f \<and> att_p ?f = Pending
         \<and> listeners discovered 2 EvConnectionStatusChanged = [OnConnectionStatusChanged 2]
       \<longrightarrow> devices (resume 2 (emit 2 (ConnectionStatusChanged ''Ready'' ''Unspecified'')
                 (cancelPairing discovered))) (device_id (att_bdAddr ?f)) = Some (next_obj discovered)"
    by blast
  from late h have d: "devices (resume 2 (emit 2 (ConnectionStatusChanged ''Ready'' ''Unspecified'')
                 (cancelPairing discovered))) ''flic-AA:BB'' = Some 3"
    by (simp add: c device_id_def)
  from t h c d show ?thesis
    by simp
qed

text \<open>
  C8. The spec says that the device built for a button discovered during pairing carries
  the name of its advertisement. \<^verbatim>\<open>addDevice\<close> calls
  \<^verbatim>\<open>new FlicButton(this, bdAddr, cc, name)\<close>, and the constructor is declared as
  \<^verbatim>\<open>constructor(adapter, bdAddr, cc, client, name)\<close>: the name arrives as \<^verbatim>\<open>client\<close> and the
  parameter \<^verbatim>\<open>name\<close> is undefined. The button advertised as \<^verbatim>\<open>F022abcd\<close>, whose attempt
  reaches Ready, is registered under the default name \<^verbatim>\<open>Flic button AA:BB\<close>.
\<close>

theorem device_name_ignores_advertised_name:
  "map_option att_name (frames discovered 2) = Some (Some ''F022abcd'')
   \<and> devices (run [Emit 2 (ConnectionStatusChanged ''Ready'' ''Unspecified''), Resume 2]
                 discovered) ''flic-AA:BB'' = Some 3
   \<and> map_option fb_name
        (buttons (run [Emit 2 (ConnectionStatusChanged ''Ready'' ''Unspecified''), Resume 2]
           discovered) 3) = Some ''Flic button AA:BB''"
  unfolding discovered_eval by (simp add: eval_defs)

text \<open>
  C9. While a scanner has the listener of \<^verbatim>\<open>startPairing\<close>, an advertisement of a button
  that reports itself private only adds a warning to the console: the state is otherwise
  unchanged, so no channel is created, nothing is sent to the daemon client and no attempt
  starts.
\<close>

theorem private_advertisement_only_warns:
  assumes "listeners st s EvAdvertisementPacket = [OnAdvertisementPacket]"
  shows "emit s (AdvertisementPacket bdAddr name rssi True alreadyVerified) st =
    st\<lparr>console := console st @
             [ConsoleWarn (''Your button '' @ name @
                '' is private. Hold down for 7 seconds to make it public.'')]\<rparr>"
  using assms by (simp add: emit_single on_advertisementPacket_def)

theorem private_advertisement_only_warns_witness:
  "listeners (startPairing 60 new_FlicAdapter) 0 EvAdvertisementPacket = [OnAdvertisementPacket]
   \<and> emit 0 (AdvertisementPacket ''AA:BB'' ''F022abcd'' (- 60) True False)
        (startPairing 60 new_FlicAdapter) =
      (startPairing 60 new_FlicAdapter)
        \<lparr>console := [ConsoleWarn
           ''Your button F022abcd is private. Hold down for 7 seconds to make it public.'']\<rparr>"
proof -
  have h: "listeners (startPairing 60 new_FlicAdapter) 0 EvAdvertisementPacket =
             [OnAdvertisementPacket]"
    by (simp add: eval_defs)
  have c: "console (startPairing 60 new_FlicAdapter) = []"
    by (simp add: eval_defs)
  from private_advertisement_only_warns [OF h, of "''AA:BB''" "''F022abcd''" "- 60" False] h
  show ?thesis
    by (simp add: c)
qed

text \<open>
  C10. A pending attempt that receives \<^verbatim>\<open>createResponse\<close> with the status \<^verbatim>\<open>"Ready"\<close> has
  its promise fulfilled with the channel, whatever the error code is: the status is tested
  first. When the call is continued, nothing is logged, the channel is not released, and
  the device registered for the address is built on that channel.
\<close>

theorem createResponse_ready_resolves:
  assumes "frames st cc = Some f" and "att_awaiting f" and "att_p f = Pending"
    and "listeners st cc EvCreateResponse = [OnCreateResponse cc]"
  shows "emit cc (CreateResponse error ''Ready'') st =
           st\<lparr>frames := (frames st)(cc \<mapsto> f\<lparr>att_p := Resolved cc\<rparr>)\<rparr>
       \<and> console (resume cc (emit cc (CreateResponse error ''Ready'') st)) = console st
       \<and> client (resume cc (emit cc (CreateResponse error ''Ready'') st)) =
           client st @ [AddBatteryStatusListener (Suc (next_obj st))]
       \<and> devices (resume cc (emit cc (CreateResponse error ''Ready'') st)) (device_id (att_bdAddr f)) =
           Some (next_obj st)
       \<and> map_option fb_cc (buttons (resume cc (emit cc (CreateResponse error ''Ready'') st)) (next_obj st)) =
           Some cc"
proof -
  let ?st1 = "st\<lparr>frames := (frames st)(cc \<mapsto> f\<lparr>att_p := Resolved cc\<rparr>)\<rparr>"
  have e: "emit cc (CreateResponse error ''Ready'') st = ?st1"
    using assms by (simp add: emit_single on_createResponse_def resolve_def)
  have fr: "frames ?st1 cc = Some (f\<lparr>att_p := Resolved cc\<rparr>)"
    by simp
  have r: "resume cc ?st1 = after_try cc Normal ?st1"
    using assms(2) by (simp add: resume_settled [OF fr])
  show ?thesis
    unfolding e r
    by (simp add: after_try_fields [OF fr] after_try_buttons [OF fr, simplified])
qed

theorem createResponse_ready_resolves_witness:
  "frames pending_attempt 0 =
     Some \<lparr> att_bdAddr = ''AA:BB'', att_name = Some ''Btn'', att_timeout = None,
            att_p = Pending, att_awaiting = True \<rparr>
   \<and> listeners pending_attempt 0 EvCreateResponse = [OnCreateResponse 0]
   \<and> map_option att_p
        (frames (emit 0 (CreateResponse ''MaxPendingConnectionsReached'' ''Ready'')
           pending_attempt) 0) = Some (Resolved 0)
   \<and> console (resume 0 (emit 0 (CreateResponse ''MaxPendingConnectionsReached'' ''Ready'')
        pending_attempt)) = []
   \<and> client (resume 0 (emit 0 (CreateResponse ''MaxPendingConnectionsReached'' ''Ready'')
        pending_attempt)) = [AddConnectionChannel 0, AddBatteryStatusListener 2]
   \<and> devices (resume 0 (emit 0 (CreateResponse ''MaxPendingConnectionsReached'' ''Ready'')
        pending_attempt)) ''flic-AA:BB'' = Some 1
   \<and> map_option fb_cc
        (buttons (resume 0 (emit 0 (CreateResponse ''MaxPendingConnectionsReached'' ''Ready'')
           pending_attempt)) 1) = Some 0"
proof -
  let ?f = "\<lparr> att_bdAddr = ''AA:BB'', att_name = Some ''Btn'', att_timeout = None,
              att_p = Pending, att_awaiting = True \<rparr>"
  have h: "frames pending_attempt 0 = Some ?f" "att_awaiting ?f" "att_p ?f = Pending"
    "listeners pending_attempt 0 EvCreateResponse = [OnCreateResponse 0]"
    by (simp_all add: pending_attempt_eval)
  have c: "client pending_attempt = [AddConnectionChannel 0]" "console pending_attempt = []"
    "next_obj pending_attempt = 1"
    by (simp_all add: pending_attempt_eval)
  from createResponse_ready_resolves [OF h, of "''MaxPendingConnectionsReached''"] h(1,4)
  show ?thesis
    by (auto simp add: c device_id_def numeral_2_eq_2)
qed

end
